theory Spec2Isabelle
  imports Main "HOL-Library.Char_ord" "HOL-Library.List_Lexorder" "HOL-Library.Multiset"
begin

section \<open>Merging Wavefront OBJ files: a model of \<^verbatim>\<open>merge_obj.py\<close>\<close>

text \<open>
  The program has one function, \<^verbatim>\<open>merge_obj_files_in_memory\<close>. It lists a directory,
  keeps the regular files whose name ends in \<^verbatim>\<open>.obj\<close>, sorts the names, and writes one
  block per file to the output, adding running offsets to the indices of the face lines.

  Strings are lists of characters; a character stands for a code point below 256, so the
  library functions of Python that the program calls (\<^verbatim>\<open>strip\<close>, \<^verbatim>\<open>split\<close>, \<^verbatim>\<open>lower\<close>,
  \<^verbatim>\<open>int\<close>, \<^verbatim>\<open>str\<close>) are modelled on that range. Python's integers are unbounded, hence
  \<^typ>\<open>int\<close>. The only exception the loop itself can raise is the \<^verbatim>\<open>ValueError\<close> of
  \<^verbatim>\<open>int\<close>; the interpreter's optional limit on the number of digits of a literal is
  not modelled.
\<close>

subsection \<open>Characters and the string functions of Python\<close>

definition LF :: char where "LF = CHR 0x0A"
definition CR :: char where "CR = CHR 0x0D"

text \<open>\<^verbatim>\<open>str.isspace\<close> on one code point below 256.\<close>

definition is_space :: "char \<Rightarrow> bool" where
  "is_space c = (c \<in> set [CHR 0x09, CHR 0x0A, CHR 0x0B, CHR 0x0C, CHR 0x0D,
                            CHR 0x1C, CHR 0x1D, CHR 0x1E, CHR 0x1F, CHR 0x20,
                            CHR 0x85, CHR 0xA0])"

text \<open>\<^verbatim>\<open>s.strip()\<close>: whitespace removed at both ends.\<close>

definition strip :: "string \<Rightarrow> string" where
  "strip s = rev (dropWhile is_space (rev (dropWhile is_space s)))"

definition startswith :: "string \<Rightarrow> string \<Rightarrow> bool" where
  "startswith s p = (take (length p) s = p)"

definition endswith :: "string \<Rightarrow> string \<Rightarrow> bool" where
  "endswith s p = (length p \<le> length s \<and> drop (length s - length p) s = p)"

text \<open>\<^verbatim>\<open>s.lower()\<close> on code points below 256: the letters A to Z, and the capital
  letters of the Latin-1 range (0xC0 to 0xDE without the multiplication sign 0xD7).\<close>

definition lower_char :: "char \<Rightarrow> char" where
  "lower_char c =
     (let n = (of_char c :: nat)
      in if (65 \<le> n \<and> n \<le> 90) \<or> (192 \<le> n \<and> n \<le> 222 \<and> n \<noteq> 215)
         then char_of (n + 32) else c)"

definition lower :: "string \<Rightarrow> string" where
  "lower s = map lower_char s"

text \<open>\<^verbatim>\<open>s.split()\<close>: the maximal runs of non-whitespace characters. The first argument
  is the word being read.\<close>

fun split_ws :: "string \<Rightarrow> string \<Rightarrow> string list" where
  "split_ws w [] = (if w = [] then [] else [w])"
| "split_ws w (c # cs) =
     (if is_space c then (if w = [] then split_ws [] cs else w # split_ws [] cs)
      else split_ws (w @ [c]) cs)"

definition py_split :: "string \<Rightarrow> string list" where
  "py_split s = split_ws [] s"

text \<open>\<^verbatim>\<open>s.split(sep)\<close> for a separator of one character: never the empty list.\<close>

fun split_on :: "char \<Rightarrow> string \<Rightarrow> string list" where
  "split_on sep [] = [[]]"
| "split_on sep (c # cs) =
     (if c = sep then [] # split_on sep cs
      else (case split_on sep cs of [] \<Rightarrow> [[c]] | l # ls \<Rightarrow> (c # l) # ls))"

text \<open>\<^verbatim>\<open>sep.join(xs)\<close>.\<close>

fun join :: "string \<Rightarrow> string list \<Rightarrow> string" where
  "join sep [] = []"
| "join sep [x] = x"
| "join sep (x # y # ys) = x @ sep @ join sep (y # ys)"

subsection \<open>\<^verbatim>\<open>int\<close> and \<^verbatim>\<open>str\<close>\<close>

definition is_digit :: "char \<Rightarrow> bool" where
  "is_digit c = (48 \<le> (of_char c :: nat) \<and> (of_char c :: nat) \<le> 57)"

definition digit_val :: "char \<Rightarrow> nat" where
  "digit_val c = of_char c - 48"

text \<open>The digits of a decimal literal after its first digit: a digit, or one underscore
  followed by a digit. The first argument is the value read so far.\<close>

fun after_digit :: "nat \<Rightarrow> string \<Rightarrow> nat option" where
  "after_digit acc [] = Some acc"
| "after_digit acc [c] = (if is_digit c then Some (10 * acc + digit_val c) else None)"
| "after_digit acc (c # d # ds) =
     (if is_digit c then after_digit (10 * acc + digit_val c) (d # ds)
      else if c = CHR ''_'' \<and> is_digit d then after_digit (10 * acc + digit_val d) ds
      else None)"

definition parse_digits :: "string \<Rightarrow> nat option" where
  "parse_digits s =
     (case s of [] \<Rightarrow> None
      | c # cs \<Rightarrow> if is_digit c then after_digit (digit_val c) cs else None)"

text \<open>\<^verbatim>\<open>int(s)\<close> in base 10: surrounding whitespace, an optional sign, digits with single
  underscores between them. \<open>None\<close> is the \<^verbatim>\<open>ValueError\<close>.\<close>

definition py_int :: "string \<Rightarrow> int option" where
  "py_int s =
     (case strip s of [] \<Rightarrow> None
      | c # cs \<Rightarrow>
          if c = CHR ''-'' then map_option (\<lambda>n. - int n) (parse_digits cs)
          else if c = CHR ''+'' then map_option int (parse_digits cs)
          else map_option int (parse_digits (c # cs)))"

text \<open>\<^verbatim>\<open>str(n)\<close> of an integer: its decimal digits, with a minus sign when negative.\<close>

fun digits_of :: "nat \<Rightarrow> string" where
  "digits_of n =
     (if n < 10 then [char_of (48 + n)]
      else digits_of (n div 10) @ [char_of (48 + n mod 10)])"

declare digits_of.simps [simp del]

definition py_str :: "int \<Rightarrow> string" where
  "py_str n = (if n < 0 then CHR ''-'' # digits_of (nat (- n)) else digits_of (nat n))"

subsection \<open>Renumbering one face token (lines 82 to 110)\<close>

datatype error = ValueError string

record offsets =
  vertex_offset :: int
  tex_offset :: int
  norm_offset :: int

text \<open>One of the three blocks \<^verbatim>\<open>if len(indices) > i and indices[i]: ... else: ...\<close>.
  The result \<open>None\<close> is the empty string that the source stores for an absent field.\<close>

definition index_field :: "string list \<Rightarrow> nat \<Rightarrow> int \<Rightarrow> error + int option" where
  "index_field indices i off =
     (if length indices > i \<and> indices ! i \<noteq> []
      then (case py_int (indices ! i) of
              None \<Rightarrow> Inl (ValueError (indices ! i))
            | Some n \<Rightarrow> Inr (Some (n + off)))
      else Inr None)"

text \<open>An f-string field \<^verbatim>\<open>{x}\<close> for a value that is an integer or the empty string.\<close>

definition fmt :: "int option \<Rightarrow> string" where
  "fmt x = (case x of None \<Rightarrow> [] | Some n \<Rightarrow> py_str n)"

text \<open>The rebuilt token (lines 104 to 110).\<close>

definition rebuild_token :: "int option \<Rightarrow> int option \<Rightarrow> int option \<Rightarrow> string" where
  "rebuild_token v_idx t_idx n_idx =
     (if t_idx = None \<and> n_idx = None then fmt v_idx
      else if n_idx = None then fmt v_idx @ ''/'' @ fmt t_idx
      else fmt v_idx @ ''/'' @ fmt t_idx @ ''/'' @ fmt n_idx)"

definition renumber_token :: "offsets \<Rightarrow> string \<Rightarrow> error + string" where
  "renumber_token off p =
     (let indices = split_on CHR ''/'' p in
      case index_field indices 0 (vertex_offset off) of
        Inl e \<Rightarrow> Inl e
      | Inr v_idx \<Rightarrow>
          (case index_field indices 1 (tex_offset off) of
             Inl e \<Rightarrow> Inl e
           | Inr t_idx \<Rightarrow>
               (case index_field indices 2 (norm_offset off) of
                  Inl e \<Rightarrow> Inl e
                | Inr n_idx \<Rightarrow> Inr (rebuild_token v_idx t_idx n_idx))))"

subsection \<open>Reading a file (lines 35 to 64)\<close>

text \<open>A file opened in text mode yields its lines with every line ending (\<^verbatim>\<open>\n\<close>,
  \<^verbatim>\<open>\r\<close>, \<^verbatim>\<open>\r\n\<close>) turned into \<^verbatim>\<open>\n\<close>; a last line without an ending is
  yielded as it is.\<close>

fun translate_newlines :: "string \<Rightarrow> string" where
  "translate_newlines [] = []"
| "translate_newlines [c] = [if c = CR then LF else c]"
| "translate_newlines (c # d # cs) =
     (if c = CR then (if d = LF then LF # translate_newlines cs
                      else LF # translate_newlines (d # cs))
      else c # translate_newlines (d # cs))"

fun split_lines :: "string \<Rightarrow> string list" where
  "split_lines [] = []"
| "split_lines (c # cs) =
     (if c = LF then [LF] # split_lines cs
      else (case split_lines cs of [] \<Rightarrow> [[c]] | l # ls \<Rightarrow> (c # l) # ls))"

definition readlines :: "string \<Rightarrow> string list" where
  "readlines content = split_lines (translate_newlines content)"

record mesh =
  vertices :: "string list"
  texcoords :: "string list"
  normals :: "string list"
  faces :: "string list"

definition empty_mesh :: mesh where
  "empty_mesh = \<lparr>vertices = [], texcoords = [], normals = [], faces = []\<rparr>"

text \<open>The body of the reading loop, for one line.\<close>

definition classify :: "mesh \<Rightarrow> string \<Rightarrow> mesh" where
  "classify m raw =
     (let line = strip raw in
      if line = [] then m
      else if startswith line ''o '' \<or> startswith line ''g '' then m
      else if startswith line ''v '' then m\<lparr>vertices := vertices m @ [line]\<rparr>
      else if startswith line ''vt '' then m\<lparr>texcoords := texcoords m @ [line]\<rparr>
      else if startswith line ''vn '' then m\<lparr>normals := normals m @ [line]\<rparr>
      else if startswith line ''f '' then m\<lparr>faces := faces m @ [line]\<rparr>
      else m)"

fun parse_lines :: "mesh \<Rightarrow> string list \<Rightarrow> mesh" where
  "parse_lines m [] = m"
| "parse_lines m (raw # rest) = parse_lines (classify m raw) rest"

definition parse_file :: "string \<Rightarrow> mesh" where
  "parse_file content = parse_lines empty_mesh (readlines content)"

subsection \<open>Writing the faces of a file (lines 79 to 112)\<close>

text \<open>The inner loop over the tokens of one face line: the new tokens, or the exception
  of the first field that \<^verbatim>\<open>int\<close> rejects.\<close>

fun renumber_tokens :: "offsets \<Rightarrow> string list \<Rightarrow> error + string list" where
  "renumber_tokens off [] = Inr []"
| "renumber_tokens off (p # ps) =
     (case renumber_token off p of
        Inl e \<Rightarrow> Inl e
      | Inr t \<Rightarrow> (case renumber_tokens off ps of Inl e \<Rightarrow> Inl e | Inr ts \<Rightarrow> Inr (t # ts)))"

text \<open>What one face line writes: \<^verbatim>\<open>"f " + " ".join(new_face_tokens) + "\n"\<close>.\<close>

definition renumber_face :: "offsets \<Rightarrow> string \<Rightarrow> error + string" where
  "renumber_face off face_line =
     (case renumber_tokens off (tl (py_split face_line)) of
        Inl e \<Rightarrow> Inl e
      | Inr new_face_tokens \<Rightarrow> Inr (''f '' @ join '' '' new_face_tokens @ [LF]))"

text \<open>The loop over the face lines. The result is the text written and the exception
  raised, if any: a face line is written only after all its tokens are renumbered, and
  nothing is written after an exception.\<close>

fun write_faces :: "offsets \<Rightarrow> string list \<Rightarrow> string \<times> error option" where
  "write_faces off [] = ([], None)"
| "write_faces off (face_line # rest) =
     (case renumber_face off face_line of
        Inl e \<Rightarrow> ([], Some e)
      | Inr s \<Rightarrow> (case write_faces off rest of (out, r) \<Rightarrow> (s @ out, r)))"

subsection \<open>The block of one file and the loop over the files (lines 30 to 117)\<close>

text \<open>\<^verbatim>\<open>for v in lines: out_f.write(v + "\n")\<close>.\<close>

definition write_lines :: "string list \<Rightarrow> string" where
  "write_lines ls = concat (map (\<lambda>l. l @ [LF]) ls)"

text \<open>\<^verbatim>\<open>s.rfind(c)\<close>: the last position of \<open>c\<close>, or \<open>-1\<close>.\<close>

definition rfind :: "string \<Rightarrow> char \<Rightarrow> int" where
  "rfind p c =
     (if c \<in> set p then int (length p) - 1 - int (length (takeWhile (\<lambda>x. x \<noteq> c) (rev p)))
      else - 1)"

text \<open>\<^verbatim>\<open>os.path.splitext\<close> (POSIX): the extension starts at the last dot of the last path
  component, unless only dots precede it there.\<close>

definition splitext :: "string \<Rightarrow> string \<times> string" where
  "splitext p =
     (let sepIndex = rfind p CHR ''/'';
          dotIndex = rfind p CHR ''.''
      in if dotIndex > sepIndex \<and>
            list_ex (\<lambda>c. c \<noteq> CHR ''.'')
              (take (nat dotIndex - nat (sepIndex + 1)) (drop (nat (sepIndex + 1)) p))
         then (take (nat dotIndex) p, drop (nat dotIndex) p)
         else (p, []))"

text \<open>Lines 66 to 112 for a file already read: the two header lines, the three kinds of
  coordinate lines, then the faces.\<close>

definition write_block :: "offsets \<Rightarrow> string \<Rightarrow> mesh \<Rightarrow> string \<times> error option" where
  "write_block off obj_name m =
     (case write_faces off (faces m) of
        (fs, r) \<Rightarrow>
          (''o '' @ obj_name @ [LF] @ ''g '' @ obj_name @ [LF] @
           write_lines (vertices m) @ write_lines (texcoords m) @ write_lines (normals m) @ fs,
           r))"

text \<open>Lines 115 to 117.\<close>

definition advance :: "offsets \<Rightarrow> mesh \<Rightarrow> offsets" where
  "advance off m =
     \<lparr>vertex_offset = vertex_offset off + int (length (vertices m)),
      tex_offset = tex_offset off + int (length (texcoords m)),
      norm_offset = norm_offset off + int (length (normals m))\<rparr>"

text \<open>What is under a name of the input directory: a regular file with its text, or
  something else (a directory, a device).\<close>

datatype node = Regular string | Other

type_synonym directory = "string \<Rightarrow> node option"

definition isfile :: "directory \<Rightarrow> string \<Rightarrow> bool" where
  "isfile d f = (case d f of Some (Regular content) \<Rightarrow> True | _ \<Rightarrow> False)"

text \<open>The text of a file of the directory; the loop opens only names that passed
  \<open>isfile\<close>.\<close>

definition read_file :: "directory \<Rightarrow> string \<Rightarrow> string" where
  "read_file d f = (case d f of Some (Regular content) \<Rightarrow> content | _ \<Rightarrow> [])"

text \<open>The loop over the sorted file names, with the offsets it carries.\<close>

fun merge_loop :: "directory \<Rightarrow> offsets \<Rightarrow> string list \<Rightarrow> string \<times> error option" where
  "merge_loop d off [] = ([], None)"
| "merge_loop d off (filename # rest) =
     (let obj_name = fst (splitext filename);
          m = parse_file (read_file d filename)
      in case write_block off obj_name m of
           (block, Some e) \<Rightarrow> (block, Some e)
         | (block, None) \<Rightarrow>
             (case merge_loop d (advance off m) rest of (out, r) \<Rightarrow> (block @ out, r)))"

text \<open>Lines 16 to 20: the names kept, in the order of \<^verbatim>\<open>list.sort\<close>. The first argument
  is what \<^verbatim>\<open>os.listdir\<close> returns, in the order it returns it.\<close>

definition obj_files :: "string list \<Rightarrow> directory \<Rightarrow> string list" where
  "obj_files listing d =
     sort (filter (\<lambda>f. endswith (lower f) ''.obj'' \<and> isfile d f) listing)"

definition zero_offsets :: offsets where
  "zero_offsets = \<lparr>vertex_offset = 0, tex_offset = 0, norm_offset = 0\<rparr>"

definition header :: string where
  "header = ''# Merged OBJ file'' @ [LF, LF]"

text \<open>The whole function: the text written to the output file, and the exception that
  ended the merge, if any. The output file is taken not to be one of the files read.\<close>

definition merge_obj_files_in_memory :: "string list \<Rightarrow> directory \<Rightarrow> string \<times> error option" where
  "merge_obj_files_in_memory listing d =
     (case merge_loop d zero_offsets (obj_files listing d) of
        (out, r) \<Rightarrow> (header @ out, r))"

subsection \<open>Notions used to state the properties\<close>

text \<open>The field at position \<open>i\<close> of a face token, when it is there and not empty.\<close>

definition field_of :: "string \<Rightarrow> nat \<Rightarrow> string option" where
  "field_of p i =
     (let indices = split_on CHR ''/'' p
      in if i < length indices \<and> indices ! i \<noteq> [] then Some (indices ! i) else None)"













text \<open>A small directory for the concrete instances below: what \<^verbatim>\<open>os.listdir\<close> returns, and
  what is under each name. The name \<^verbatim>\<open>c.obj\<close> is not a regular file.\<close>

definition example_listing :: "string list" where
  "example_listing = [''b.OBJ'', ''notes.txt'', ''a.obj'', ''c.obj'']"

text \<open>The files of the example directory.\<close>

definition example_dir :: directory where
  "example_dir = map_of
     [(''b.OBJ'', Regular ''v 0 0 0\<newline>v 1 0 0\<newline>vn 0 0 1\<newline>f 1//1 2//1 1\<newline>''),
      (''notes.txt'', Regular ''v 9 9 9''),
      (''a.obj'', Regular ''o x\<newline>v 1 2 3\<newline>  vt 0 0\<newline>f 1/1 1\<newline>''),
      (''c.obj'', Other)]"



section \<open>Auxiliary facts\<close>

lemma split_on_nonempty: "split_on sep s \<noteq> []"
  by (induction s) (auto split: list.splits)

lemma split_on_no_sep: "sep \<notin> set s \<Longrightarrow> split_on sep s = [s]"
  by (induction s) auto

lemma split_on_append: "sep \<notin> set a \<Longrightarrow> split_on sep (a @ sep # b) = a # split_on sep b"
  by (induction a) auto

lemma is_digit_char_of: "(n::nat) < 10 \<Longrightarrow> is_digit (char_of (48 + n))"
  by (simp add: is_digit_def)


lemma digits_of_nonempty: "digits_of n \<noteq> []"
  by (subst digits_of.simps) simp

lemma digits_of_digits: "c \<in> set (digits_of n) \<Longrightarrow> is_digit c"
proof (induction n arbitrary: c rule: digits_of.induct)
  case (1 n)
  show ?case
  proof (cases "n < 10")
    case True
    with "1.prems" show ?thesis by (subst (asm) digits_of.simps) (simp add: is_digit_char_of)
  next
    case False
    with "1.prems" have "c \<in> set (digits_of (n div 10)) \<or> c = char_of (48 + n mod 10)"
      by (subst (asm) digits_of.simps) auto
    then show ?thesis
    proof
      assume "c \<in> set (digits_of (n div 10))"
      then show ?thesis using "1.IH" False by blast
    next
      assume "c = char_of (48 + n mod 10)"
      then show ?thesis by (simp add: is_digit_char_of)
    qed
  qed
qed









lemma py_str_nonempty: "py_str n \<noteq> []"
  by (simp add: py_str_def digits_of_nonempty)

lemma py_str_chars: "c \<in> set (py_str n) \<Longrightarrow> is_digit c \<or> c = CHR ''-''"
  by (auto simp: py_str_def dest: digits_of_digits split: if_splits)

lemma py_str_no_slash: "CHR ''/'' \<notin> set (py_str n)"
  using py_str_chars [of "CHR ''/''" n] by (auto simp: is_digit_def)






lemma fmt_no_slash: "CHR ''/'' \<notin> set (fmt x)"
  by (cases x) (simp_all add: fmt_def py_str_no_slash)

lemma fmt_empty_iff: "fmt x = [] \<longleftrightarrow> x = None"
  by (cases x) (simp_all add: fmt_def py_str_nonempty)

lemma split_on_two: "sep \<notin> set a \<Longrightarrow> sep \<notin> set b \<Longrightarrow> split_on sep (a @ sep # b) = [a, b]"
  by (simp add: split_on_append split_on_no_sep)

lemma split_on_three:
  "sep \<notin> set a \<Longrightarrow> sep \<notin> set b \<Longrightarrow> sep \<notin> set c \<Longrightarrow>
   split_on sep (a @ sep # b @ sep # c) = [a, b, c]"
  by (simp add: split_on_append split_on_no_sep)

lemma split_on_rebuild_token:
  "split_on CHR ''/'' (rebuild_token v t n) =
     (if t = None \<and> n = None then [fmt v]
      else if n = None then [fmt v, fmt t] else [fmt v, fmt t, fmt n])"
  by (simp add: rebuild_token_def split_on_no_sep split_on_two split_on_three fmt_no_slash)


lemma index_field_field_of:
  "index_field (split_on CHR ''/'' p) i k =
     (case field_of p i of None \<Rightarrow> Inr None
      | Some f \<Rightarrow> (case py_int f of None \<Rightarrow> Inl (ValueError f) | Some n \<Rightarrow> Inr (Some (n + k))))"
  by (simp add: index_field_def field_of_def Let_def)


lemma renumber_token_ok:
  assumes "\<forall>i < 3. \<forall>f. field_of p i = Some f \<longrightarrow> py_int f \<noteq> None"
  shows "\<exists>t. renumber_token off p = Inr t"
proof -
  have "\<And>i k. i < 3 \<Longrightarrow> \<exists>x. index_field (split_on CHR ''/'' p) i k = Inr x"
    using assms by (auto simp: index_field_field_of split: option.splits)
  then obtain v tx n where
    "index_field (split_on CHR ''/'' p) 0 (vertex_offset off) = Inr v"
    "index_field (split_on CHR ''/'' p) 1 (tex_offset off) = Inr tx"
    "index_field (split_on CHR ''/'' p) 2 (norm_offset off) = Inr n"
    by (metis numeral_3_eq_3 zero_less_Suc One_nat_def Suc_1 lessI less_Suc_eq)
  then show ?thesis by (simp add: renumber_token_def Let_def)
qed

















lemma split_on_fields_no_sep: "x \<in> set (split_on sep s) \<Longrightarrow> sep \<notin> set x"
  by (induction s arbitrary: x) (auto split: if_splits list.splits)

lemma split_on_join:
  "xs \<noteq> [] \<Longrightarrow> \<forall>x \<in> set xs. sep \<notin> set x \<Longrightarrow> split_on sep (join [sep] xs) = xs"
proof (induction xs rule: induct_list012)
  case 1
  then show ?case by simp
next
  case (2 x)
  then show ?case by (simp add: split_on_no_sep)
next
  case (3 x y zs)
  then show ?case by (simp add: split_on_append)
qed

lemma index_field_take:
  "i < n \<Longrightarrow> index_field (take n indices) i k = index_field indices i k"
  by (simp add: index_field_def split: option.splits)

lemma renumber_token_first_three:
  "renumber_token off (join ''/'' (take 3 (split_on CHR ''/'' p))) = renumber_token off p"
proof -
  let ?ix = "split_on CHR ''/'' p"
  have ne: "take 3 ?ix \<noteq> []" using split_on_nonempty [of "CHR ''/''" p] by (cases ?ix) auto
  have "\<forall>x \<in> set (take 3 ?ix). CHR ''/'' \<notin> set x"
    using split_on_fields_no_sep [of _ "CHR ''/''" p] in_set_takeD by metis
  then have "split_on CHR ''/'' (join ''/'' (take 3 ?ix)) = take 3 ?ix"
    using ne by (intro split_on_join) auto
  moreover have "\<And>k. index_field (take 3 ?ix) 0 k = index_field ?ix 0 k"
    by (rule index_field_take) simp
  moreover have "\<And>k. index_field (take 3 ?ix) 1 k = index_field ?ix 1 k"
    by (rule index_field_take) simp
  moreover have "\<And>k. index_field (take 3 ?ix) 2 k = index_field ?ix 2 k"
    by (rule index_field_take) simp
  ultimately show ?thesis by (simp add: renumber_token_def Let_def cong: sum.case_cong)
qed

lemma renumber_token_at_most_three:
  "renumber_token off p = Inr t \<Longrightarrow> length (split_on CHR ''/'' t) \<le> 3"
  by (auto simp: renumber_token_def Let_def split_on_rebuild_token split: sum.splits)










lemma example_merge:
  "merge_obj_files_in_memory example_listing example_dir =
     (''# Merged OBJ file\<newline>\<newline>o a\<newline>g a\<newline>v 1 2 3\<newline>vt 0 0\<newline>f 1/1 1\<newline>o b\<newline>g b\<newline>v 0 0 0\<newline>v 1 0 0\<newline>vn 0 0 1\<newline>f 2//1 3//1 2\<newline>'', None)"
  by code_simp

lemma merge_eq:
  "merge_obj_files_in_memory listing d =
     (header @ fst (merge_loop d zero_offsets (obj_files listing d)),
      snd (merge_loop d zero_offsets (obj_files listing d)))"
  by (simp add: merge_obj_files_in_memory_def split: prod.splits)





lemma obj_files_empty:
  "(\<forall>f \<in> set listing. \<not> (endswith (lower f) ''.obj'' \<and> isfile d f)) \<Longrightarrow> obj_files listing d = []"
  by (simp add: obj_files_def filter_empty_conv)































section \<open>Properties of the token renumbering\<close>

text \<open>
  Claim C2. A face token whose texture field is empty and whose normal field is present is
  written with its two slashes: the vertex index plus the vertex offset (or nothing, when
  the vertex field is empty too), two slashes, the normal index plus the normal offset.
  The f-string of line 110 puts the empty string between the two slashes, so the token is
  not collapsed to the form with one slash.
\<close>

theorem double_slash_preserved:
  assumes "field_of p 1 = None" and "field_of p 2 = Some fn" and "py_int fn = Some n"
    and "case field_of p 0 of None \<Rightarrow> True | Some fv \<Rightarrow> py_int fv \<noteq> None"
  shows "renumber_token off p =
           Inr ((case field_of p 0 of None \<Rightarrow> []
                 | Some fv \<Rightarrow> py_str (the (py_int fv) + vertex_offset off))
                @ ''//'' @ py_str (n + norm_offset off)) \<and>
         renumber_token off p \<noteq>
           Inr ((case field_of p 0 of None \<Rightarrow> []
                 | Some fv \<Rightarrow> py_str (the (py_int fv) + vertex_offset off))
                @ ''/'' @ py_str (n + norm_offset off))"
proof -
  have "py_str (n + norm_offset off) \<noteq> []" by (rule py_str_nonempty)
  then obtain c cs where "py_str (n + norm_offset off) = c # cs" by (cases "py_str (n + norm_offset off)") auto
  moreover have "c \<noteq> CHR ''/''" using py_str_no_slash [of "n + norm_offset off"] calculation by auto
  ultimately show ?thesis using assms
    by (auto simp: renumber_token_def Let_def index_field_field_of rebuild_token_def fmt_def
             split: option.splits)
qed

theorem double_slash_preserved_witness:
  "field_of ''1//3'' 1 = None \<and> field_of ''1//3'' 2 = Some ''3'' \<and> py_int ''3'' = Some 3 \<and>
   field_of ''1//3'' 0 = Some ''1'' \<and> py_int ''1'' = Some 1 \<and>
   renumber_token \<lparr>vertex_offset = 10, tex_offset = 20, norm_offset = 30\<rparr> ''1//3'' = Inr ''11//33''"
proof -
  let ?off = "\<lparr>vertex_offset = 10, tex_offset = 20, norm_offset = 30\<rparr>"
  have a: "field_of ''1//3'' 1 = None" by code_simp
  have b: "field_of ''1//3'' 2 = Some ''3''" by code_simp
  have c: "py_int ''3'' = Some 3" by code_simp
  have e: "field_of ''1//3'' 0 = Some ''1''" by code_simp
  have f: "py_int ''1'' = Some 1" by code_simp
  have d: "case field_of ''1//3'' 0 of None \<Rightarrow> True | Some fv \<Rightarrow> py_int fv \<noteq> None"
    by (simp add: e f)
  have g: "py_str 11 = ''11''" "py_str 33 = ''33''" by code_simp+
  from double_slash_preserved [OF a b c d, of ?off] a b c e f g show ?thesis by simp
qed

text \<open>
  Claim C8. A face token without a slash is renumbered to the decimal text of its value
  plus the vertex offset, with no slash and hence no texture or normal position; when
  \<^verbatim>\<open>int\<close> rejects the token, the exception carries it.
\<close>

theorem vertex_only_token_stays_bare:
  assumes "CHR ''/'' \<notin> set p" and "p \<noteq> []"
  shows "renumber_token off p =
           (case py_int p of None \<Rightarrow> Inl (ValueError p)
            | Some n \<Rightarrow> Inr (py_str (n + vertex_offset off))) \<and>
         (\<forall>t. renumber_token off p = Inr t \<longrightarrow>
            CHR ''/'' \<notin> set t \<and> field_of t 1 = None \<and> field_of t 2 = None)"
proof -
  have ix: "split_on CHR ''/'' p = [p]" using assms(1) by (rule split_on_no_sep)
  have r: "renumber_token off p =
           (case py_int p of None \<Rightarrow> Inl (ValueError p)
            | Some n \<Rightarrow> Inr (py_str (n + vertex_offset off)))"
    using assms(2)
    by (simp add: renumber_token_def ix index_field_def rebuild_token_def fmt_def split: option.splits)
  have "\<And>n. field_of (py_str n) 1 = None \<and> field_of (py_str n) 2 = None"
    by (simp add: field_of_def split_on_no_sep [OF py_str_no_slash])
  then show ?thesis using r by (auto simp: py_str_no_slash split: option.splits)
qed

theorem vertex_only_token_stays_bare_witness:
  "CHR ''/'' \<notin> set ''7'' \<and> ''7'' \<noteq> [] \<and>
   renumber_token \<lparr>vertex_offset = 10, tex_offset = 20, norm_offset = 30\<rparr> ''7'' = Inr ''17'' \<and>
   CHR ''/'' \<notin> set ''17''"
proof -
  let ?off = "\<lparr>vertex_offset = 10, tex_offset = 20, norm_offset = 30\<rparr>"
  have a: "CHR ''/'' \<notin> set ''7''" and b: "''7'' \<noteq> []" by simp_all
  have c: "py_int ''7'' = Some 7" by code_simp
  have d: "py_str 17 = ''17''" by code_simp
  from vertex_only_token_stays_bare [OF a b, of ?off] c d show ?thesis by simp
qed

text \<open>
  Claim C10. Only the first three fields of a face token are read: renumbering a token
  gives what renumbering its first three fields gives (also the same exception), and a
  renumbered token has at most three fields.
\<close>

theorem extra_fields_dropped:
  "renumber_token off p = renumber_token off (join ''/'' (take 3 (split_on CHR ''/'' p))) \<and>
   (\<forall>t. renumber_token off p = Inr t \<longrightarrow> length (split_on CHR ''/'' t) \<le> 3)"
  using renumber_token_first_three [of off p] renumber_token_at_most_three [of off p] by simp

theorem extra_fields_dropped_witness:
  "renumber_token \<lparr>vertex_offset = 10, tex_offset = 20, norm_offset = 30\<rparr> ''1/2/3/4'' = Inr ''11/22/33'' \<and>
   renumber_token \<lparr>vertex_offset = 10, tex_offset = 20, norm_offset = 30\<rparr> ''1/2/3/4'' =
     renumber_token \<lparr>vertex_offset = 10, tex_offset = 20, norm_offset = 30\<rparr> ''1/2/3'' \<and>
   length (split_on CHR ''/'' ''11/22/33'') \<le> 3"
proof -
  let ?off = "\<lparr>vertex_offset = 10, tex_offset = 20, norm_offset = 30\<rparr>"
  have a: "renumber_token ?off ''1/2/3/4'' = Inr ''11/22/33''" by code_simp
  have b: "join ''/'' (take 3 (split_on CHR ''/'' ''1/2/3/4'')) = ''1/2/3''" by code_simp
  from extra_fields_dropped [of ?off "''1/2/3/4''"] a b show ?thesis by simp
qed

section \<open>Properties of the merge\<close>

text \<open>
  Claim C6. The output always starts with the comment line and a blank line; when no
  listed name is a regular file ending in \<^verbatim>\<open>.obj\<close>, the output is these two lines and
  nothing else, and no exception is raised.
\<close>

theorem header_always_first:
  "(\<exists>rest. fst (merge_obj_files_in_memory listing d) = ''# Merged OBJ file'' @ [LF, LF] @ rest) \<and>
   ((\<forall>f \<in> set listing. \<not> (endswith (lower f) ''.obj'' \<and> isfile d f)) \<longrightarrow>
      merge_obj_files_in_memory listing d = (''# Merged OBJ file'' @ [LF, LF], None))"
proof -
  have "fst (merge_obj_files_in_memory listing d) =
        ''# Merged OBJ file'' @ [LF, LF] @ fst (merge_loop d zero_offsets (obj_files listing d))"
    by (simp add: merge_eq header_def)
  moreover have "(\<forall>f \<in> set listing. \<not> (endswith (lower f) ''.obj'' \<and> isfile d f)) \<longrightarrow>
      merge_obj_files_in_memory listing d = (''# Merged OBJ file'' @ [LF, LF], None)"
    using obj_files_empty [of listing d] by (auto simp: merge_eq header_def)
  ultimately show ?thesis by blast
qed

theorem header_always_first_witness:
  "\<not> (endswith (lower ''notes.txt'') ''.obj'' \<and> isfile example_dir ''notes.txt'') \<and>
   \<not> (endswith (lower ''c.obj'') ''.obj'' \<and> isfile example_dir ''c.obj'') \<and>
   merge_obj_files_in_memory [''notes.txt'', ''c.obj''] example_dir =
     (''# Merged OBJ file'' @ [LF, LF], None) \<and>
   (\<exists>rest. fst (merge_obj_files_in_memory example_listing example_dir) =
      ''# Merged OBJ file'' @ [LF, LF] @ rest)"
proof -
  have a: "\<not> (endswith (lower ''notes.txt'') ''.obj'' \<and> isfile example_dir ''notes.txt'')"
    by code_simp
  have b: "\<not> (endswith (lower ''c.obj'') ''.obj'' \<and> isfile example_dir ''c.obj'')"
    by code_simp
  from a b have "\<forall>f \<in> set [''notes.txt'', ''c.obj''].
      \<not> (endswith (lower f) ''.obj'' \<and> isfile example_dir f)" by simp
  with header_always_first [of "[''notes.txt'', ''c.obj'']" example_dir] a b
    header_always_first [of example_listing example_dir]
  show ?thesis by blast
qed













end
